theory Spec2Isabelle
  imports Complex_Main
begin

section \<open>Values carried by a request\<close>

text \<open>
  The views read \<^verbatim>\<open>request.data.get('stock', None)\<close> and
  \<^verbatim>\<open>request.data.get('status', None)\<close>. For a JSON body the entries of
  \<^verbatim>\<open>request.data\<close> are whatever the JSON parser produced: \<^verbatim>\<open>None\<close>, a bool, an int,
  a float, a str, a list or a dict. Python ints are unbounded. A float is carried as the
  rational it denotes (every finite double is one; the strict JSON parser admits no NaN
  or infinity): the views test whether it is zero, and an integer column truncates it.
\<close>

datatype pyval =
    PNone
  | PBool bool
  | PInt int
  | PFloat rat
  | PStr string
  | PList "pyval list"
  | PDict "(string \<times> pyval) list"

text \<open>Python's truth value of an object, as the \<^verbatim>\<open>and\<close> of \<^verbatim>\<open>update_status\<close> tests it.\<close>

fun truthy :: "pyval \<Rightarrow> bool" where
  "truthy PNone = False"
| "truthy (PBool b) = b"
| "truthy (PInt i) = (i \<noteq> 0)"
| "truthy (PFloat x) = (x \<noteq> 0)"
| "truthy (PStr s) = (s \<noteq> [])"
| "truthy (PList xs) = (xs \<noteq> [])"
| "truthy (PDict kvs) = (kvs \<noteq> [])"

text \<open>Lists and dicts have no hash; every other value of a JSON body has one.\<close>

fun hashable :: "pyval \<Rightarrow> bool" where
  "hashable (PList xs) = False"
| "hashable (PDict kvs) = False"
| "hashable v = True"

text \<open>What a view does: it returns a \<^verbatim>\<open>Response\<close> or an exception leaves it.\<close>

datatype exn = Http404 | TypeError | ValueError | OverflowError

record response =
  response_data :: "(string \<times> string) list"
  status_code :: nat

definition HTTP_200_OK :: nat where
  "HTTP_200_OK = 200"

definition HTTP_400_BAD_REQUEST :: nat where
  "HTTP_400_BAD_REQUEST = 400"

definition Response :: "(string \<times> string) list \<Rightarrow> nat \<Rightarrow> response" where
  "Response d s = \<lparr>response_data = d, status_code = s\<rparr>"

text \<open>\<^verbatim>\<open>d.get(k, default)\<close> on a dict.\<close>

definition dict_get :: "(string \<rightharpoonup> pyval) \<Rightarrow> string \<Rightarrow> pyval \<Rightarrow> pyval" where
  "dict_get d k dflt = (case d k of None \<Rightarrow> dflt | Some v \<Rightarrow> v)"

text \<open>
  \<^verbatim>\<open>x in dict(pairs)\<close> for pairs whose first components are strings: the
  dict hashes \<^verbatim>\<open>x\<close> first, which raises \<^verbatim>\<open>TypeError\<close> for a list or a dict, and
  then compares it with the keys; only a str equals a str.
\<close>

definition in_dict :: "pyval \<Rightarrow> (string \<times> string) list \<Rightarrow> exn + bool" where
  "in_dict x pairs =
     (if hashable x then Inr (x \<in> set (map (\<lambda>kv. PStr (fst kv)) pairs)) else Inl TypeError)"

section \<open>Models and the database\<close>

type_synonym key = nat

text \<open>
  A table maps the primary key to the row; \<^verbatim>\<open>Model.objects.all()\<close> is the table itself.
\<close>

type_synonym 'row table = "key \<rightharpoonup> 'row"

text \<open>
  Modelled from the spec: \<^verbatim>\<open>models.py\<close> is not under src/. The records hold
  the columns that the views read or write (section 3 of the specification names them);
  a foreign key is the key of the row it refers to. The stock quantity is an integer
  column. The status is written only with a value that passed the guard of
  \<^verbatim>\<open>update_status\<close>.
\<close>

record auth_user =
  user_pk :: key
  is_staff :: bool

record product =
  category :: key
  stock :: int

record order =
  user_id :: key
  status :: pyval

record order_item =
  order_id :: key
  product_id :: key

record database =
  products :: "product table"
  orders :: "order table"
  order_items :: "order_item table"

text \<open>
  Modelled from the spec: \<^verbatim>\<open>Order.STATUS_CHOICES\<close> is declared in \<^verbatim>\<open>models.py\<close>,
  which is not under src/. The views take it as a list of (value, label) pairs; it is a
  parameter of \<^verbatim>\<open>update_status\<close> below. This is the enumeration that section 3 of the
  specification lists, used in the examples.
\<close>

definition STATUS_CHOICES_spec :: "(string \<times> string) list" where
  "STATUS_CHOICES_spec =
     [(''pending'', ''Pending''), (''processing'', ''Processing''), (''shipped'', ''Shipped''),
      (''delivered'', ''Delivered''), (''cancelled'', ''Cancelled'')]"

text \<open>
  The request as the views use it. Lookup values of the URL (\<^verbatim>\<open>pk\<close>, the
  \<^verbatim>\<open>category\<close> query parameter, the \<^verbatim>\<open>order_pk\<close> keyword) are carried as keys:
  the conversion of their text to the column type belongs to the ORM.
\<close>

record request =
  user :: auth_user
  data :: "string \<rightharpoonup> pyval"
  query_params :: "string \<rightharpoonup> key"

text \<open>\<^verbatim>\<open>queryset.filter(...)\<close> keeps the rows that satisfy the lookup; \<^verbatim>\<open>objects.none()\<close> has no row.\<close>

definition objects_filter :: "('row \<Rightarrow> bool) \<Rightarrow> 'row table \<Rightarrow> 'row table" where
  "objects_filter P t = (\<lambda>k. case t k of None \<Rightarrow> None | Some r \<Rightarrow> if P r then Some r else None)"

definition objects_none :: "'row table" where
  "objects_none = Map.empty"

text \<open>
  \<^verbatim>\<open>self.get_object()\<close> of the generic view: the row with the key \<^verbatim>\<open>pk\<close> in the
  view's own \<^verbatim>\<open>get_queryset()\<close>, \<^verbatim>\<open>Http404\<close> when there is none. The permission
  classes of these views have no object-level check.
\<close>

definition get_object :: "'row table \<Rightarrow> key \<Rightarrow> exn + 'row" where
  "get_object queryset pk = (case queryset pk of None \<Rightarrow> Inl Http404 | Some obj \<Rightarrow> Inr obj)"

text \<open>
  \<^verbatim>\<open>obj.save()\<close> for an object loaded under the key \<^verbatim>\<open>pk\<close>: the row of that key is
  written (updated, or inserted when the table has none).
\<close>

definition save :: "key \<Rightarrow> 'row \<Rightarrow> 'row table \<Rightarrow> 'row table" where
  "save pk obj t = t(pk \<mapsto> obj)"

text \<open>
  Python's \<^verbatim>\<open>int(v)\<close>: a bool is 0 or 1, a float is truncated towards zero, a list, a
  dict and \<^verbatim>\<open>None\<close> raise \<^verbatim>\<open>TypeError\<close>. For a str it is the value of the
  integer literal, or \<^verbatim>\<open>ValueError\<close> when the text is none; which texts are literals is
  the parameter \<open>int_of_str\<close>.
\<close>

definition int_value :: "(string \<rightharpoonup> int) \<Rightarrow> pyval \<Rightarrow> exn + int" where
  "int_value int_of_str v =
     (case v of
        PNone \<Rightarrow> Inl TypeError
      | PBool b \<Rightarrow> Inr (if b then 1 else 0)
      | PInt i \<Rightarrow> Inr i
      | PFloat x \<Rightarrow> Inr (if 0 \<le> x then \<lfloor>x\<rfloor> else \<lceil>x\<rceil>)
      | PStr s \<Rightarrow> (case int_of_str s of None \<Rightarrow> Inl ValueError | Some i \<Rightarrow> Inr i)
      | PList xs \<Rightarrow> Inl TypeError
      | PDict kvs \<Rightarrow> Inl TypeError)"

text \<open>
  Modelled from the spec: the declaration of the stock field (\<^verbatim>\<open>models.py\<close>) and the
  database settings are not under src/. Section 3 of the specification makes the stock an
  integer, and its design notes say that the value is taken as given, with no validation
  of the range (negative values are accepted). So when a product is saved, the value
  assigned to \<^verbatim>\<open>stock\<close>, which is not \<^verbatim>\<open>None\<close> here, goes through the integer field:
  it is converted with \<^verbatim>\<open>int(v)\<close>, and the result is bound as an integer of the database,
  64 bits with a sign, \<^verbatim>\<open>OverflowError\<close> beyond. There is no check that it is not negative.
\<close>

definition stock_column :: "(string \<rightharpoonup> int) \<Rightarrow> pyval \<Rightarrow> exn + int" where
  "stock_column int_of_str v =
     (case int_value int_of_str v of
        Inl e \<Rightarrow> Inl e
      | Inr i \<Rightarrow> if - (2 ^ 63) \<le> i \<and> i < 2 ^ 63 then Inr i else Inl OverflowError)"

section \<open>The views\<close>

subsection \<open>ProductViewSet\<close>

definition ProductViewSet_get_queryset :: "request \<Rightarrow> database \<Rightarrow> product table" where
  "ProductViewSet_get_queryset request db =
     (let queryset = products db in
      case query_params request ''category'' of
        None \<Rightarrow> queryset
      | Some c \<Rightarrow> objects_filter (\<lambda>p. category p = c) queryset)"

text \<open>
  \<^verbatim>\<open>product.stock = new_stock; product.save()\<close>: the row that is written holds what the
  stock column makes of \<^verbatim>\<open>new_stock\<close>; when the conversion raises, the exception leaves
  \<^verbatim>\<open>save\<close>, nothing is written and no response is returned.
\<close>

definition update_stock ::
  "(string \<rightharpoonup> int) \<Rightarrow> request \<Rightarrow> key \<Rightarrow> database \<Rightarrow> (exn + response) \<times> database" where
  "update_stock int_of_str request pk db =
     (case get_object (ProductViewSet_get_queryset request db) pk of
        Inl e \<Rightarrow> (Inl e, db)
      | Inr product \<Rightarrow>
          (let new_stock = dict_get (data request) ''stock'' PNone in
           if new_stock \<noteq> PNone then
             (case stock_column int_of_str new_stock of
                Inl e \<Rightarrow> (Inl e, db)
              | Inr i \<Rightarrow>
                  (Inr (Response [(''status'', ''stock updated'')] HTTP_200_OK),
                   db\<lparr>products := save pk (product\<lparr>stock := i\<rparr>) (products db)\<rparr>))
           else
             (Inr (Response [(''error'', ''stock value not provided'')] HTTP_400_BAD_REQUEST),
              db)))"

subsection \<open>OrderViewSet\<close>

definition OrderViewSet_get_queryset :: "request \<Rightarrow> database \<Rightarrow> order table" where
  "OrderViewSet_get_queryset request db =
     (if is_staff (user request) then orders db
      else objects_filter (\<lambda>ord. user_id ord = user_pk (user request)) (orders db))"

text \<open>
  The condition \<^verbatim>\<open>new_status and new_status in dict(Order.STATUS_CHOICES)\<close>: the
  membership test runs only for a true \<^verbatim>\<open>new_status\<close>, and may raise.
\<close>

definition update_status ::
  "(string \<times> string) list \<Rightarrow> request \<Rightarrow> key \<Rightarrow> database \<Rightarrow> (exn + response) \<times> database" where
  "update_status STATUS_CHOICES request pk db =
     (case get_object (OrderViewSet_get_queryset request db) pk of
        Inl e \<Rightarrow> (Inl e, db)
      | Inr ord \<Rightarrow>
          (let new_status = dict_get (data request) ''status'' PNone in
           case (if truthy new_status then in_dict new_status STATUS_CHOICES else Inr False) of
             Inl e \<Rightarrow> (Inl e, db)
           | Inr True \<Rightarrow>
               (Inr (Response [(''status'', ''order status updated'')] HTTP_200_OK),
                db\<lparr>orders := save pk (ord\<lparr>status := new_status\<rparr>) (orders db)\<rparr>)
           | Inr False \<Rightarrow>
               (Inr (Response [(''error'', ''invalid status'')] HTTP_400_BAD_REQUEST), db)))"

subsection \<open>OrderItemViewSet\<close>

definition OrderItemViewSet_get_queryset :: "(string \<rightharpoonup> key) \<Rightarrow> database \<Rightarrow> order_item table" where
  "OrderItemViewSet_get_queryset kwargs db =
     (case kwargs ''order_pk'' of
        Some oid \<Rightarrow> objects_filter (\<lambda>item. order_id item = oid) (order_items db)
      | None \<Rightarrow> objects_none)"

section \<open>A small database for the examples\<close>

definition alice :: auth_user where
  "alice = \<lparr>user_pk = 3, is_staff = False\<rparr>"

definition bob :: auth_user where
  "bob = \<lparr>user_pk = 4, is_staff = False\<rparr>"

definition clerk :: auth_user where
  "clerk = \<lparr>user_pk = 1, is_staff = True\<rparr>"

definition example_db :: database where
  "example_db =
     \<lparr>products = [1 \<mapsto> \<lparr>category = 2, stock = 5\<rparr>],
      orders = [7 \<mapsto> \<lparr>user_id = 3, status = PStr ''delivered''\<rparr>,
                8 \<mapsto> \<lparr>user_id = 4, status = PStr ''pending''\<rparr>],
      order_items = [1 \<mapsto> \<lparr>order_id = 7, product_id = 1\<rparr>,
                     2 \<mapsto> \<lparr>order_id = 8, product_id = 1\<rparr>]\<rparr>"

text \<open>A POST by the user \<open>u\<close> with the JSON body \<open>d\<close> and no query parameter.\<close>

definition post :: "auth_user \<Rightarrow> (string \<rightharpoonup> pyval) \<Rightarrow> request" where
  "post u d = \<lparr>user = u, data = d, query_params = Map.empty\<rparr>"

text \<open>
  The texts of the examples: \<^verbatim>\<open>int('12')\<close> is 12, and \<^verbatim>\<open>int('abc')\<close> raises
  \<^verbatim>\<open>ValueError\<close>. The examples convert no other text.
\<close>

definition example_int_of_str :: "string \<rightharpoonup> int" where
  "example_int_of_str = [''12'' \<mapsto> 12]"

section \<open>Facts about the building blocks\<close>

lemma Response_ok_neq_error:
  "Response [(''status'', ''order status updated'')] HTTP_200_OK
     \<noteq> Response [(''error'', ''invalid status'')] HTTP_400_BAD_REQUEST"
  by (simp add: Response_def HTTP_200_OK_def HTTP_400_BAD_REQUEST_def)

text \<open>The guard of \<^verbatim>\<open>update_status\<close> is true exactly for a non-empty str that is a key.\<close>

lemma accepted_iff:
  "(if truthy v then in_dict v STATUS_CHOICES else Inr False) = Inr True
     \<longleftrightarrow> (\<exists>s. v = PStr s \<and> s \<noteq> [] \<and> s \<in> fst ` set STATUS_CHOICES)"
  by (cases v) (auto simp: in_dict_def)

text \<open>The guard raises exactly for a non-empty list or dict.\<close>

lemma raises_iff:
  "(if truthy v then in_dict v STATUS_CHOICES else Inr False) = Inl e
     \<longleftrightarrow> e = TypeError \<and> truthy v \<and> \<not> hashable v"
  by (cases v) (auto simp: in_dict_def)

text \<open>\<^verbatim>\<open>update_status\<close> once \<^verbatim>\<open>get_object\<close> has returned the order.\<close>

lemma update_status_found:
  assumes "get_object (OrderViewSet_get_queryset request db) pk = Inr ord"
  shows "update_status STATUS_CHOICES request pk db =
     (let new_status = dict_get (data request) ''status'' PNone in
      case (if truthy new_status then in_dict new_status STATUS_CHOICES else Inr False) of
        Inl e \<Rightarrow> (Inl e, db)
      | Inr True \<Rightarrow>
          (Inr (Response [(''status'', ''order status updated'')] HTTP_200_OK),
           db\<lparr>orders := (orders db)(pk \<mapsto> ord\<lparr>status := new_status\<rparr>)\<rparr>)
      | Inr False \<Rightarrow>
          (Inr (Response [(''error'', ''invalid status'')] HTTP_400_BAD_REQUEST), db))"
  unfolding update_status_def save_def using assms by simp

text \<open>\<^verbatim>\<open>update_stock\<close> once \<^verbatim>\<open>get_object\<close> has returned the product.\<close>

lemma update_stock_found:
  assumes "get_object (ProductViewSet_get_queryset request db) pk = Inr prd"
  shows "update_stock int_of_str request pk db =
     (let new_stock = dict_get (data request) ''stock'' PNone in
      if new_stock \<noteq> PNone then
        (case stock_column int_of_str new_stock of
           Inl e \<Rightarrow> (Inl e, db)
         | Inr i \<Rightarrow>
             (Inr (Response [(''status'', ''stock updated'')] HTTP_200_OK),
              db\<lparr>products := (products db)(pk \<mapsto> prd\<lparr>stock := i\<rparr>)\<rparr>))
      else
        (Inr (Response [(''error'', ''stock value not provided'')] HTTP_400_BAD_REQUEST), db))"
  unfolding update_stock_def save_def using assms by simp

text \<open>Lookups in the example database.\<close>

lemma alice_reaches_7:
  "get_object (OrderViewSet_get_queryset (post alice d) example_db) 7
     = Inr \<lparr>user_id = 3, status = PStr ''delivered''\<rparr>"
  by (simp add: get_object_def OrderViewSet_get_queryset_def objects_filter_def post_def
      alice_def example_db_def)

lemma clerk_reaches_7:
  "get_object (OrderViewSet_get_queryset (post clerk d) example_db) 7
     = Inr \<lparr>user_id = 3, status = PStr ''delivered''\<rparr>"
  by (simp add: get_object_def OrderViewSet_get_queryset_def post_def clerk_def example_db_def)

lemma product_1_found:
  "get_object (ProductViewSet_get_queryset (post u d) example_db) 1
     = Inr \<lparr>category = 2, stock = 5\<rparr>"
  by (simp add: get_object_def ProductViewSet_get_queryset_def post_def example_db_def)

text \<open>An integer within the range of the database goes through the stock column as it is.\<close>

lemma stock_column_PInt:
  "- (2 ^ 63) \<le> i \<Longrightarrow> i < 2 ^ 63 \<Longrightarrow> stock_column int_of_str (PInt i) = Inr i"
  by (simp add: stock_column_def int_value_def)

text \<open>The stock column raises nothing but these three exceptions.\<close>

lemma stock_column_raises:
  "stock_column int_of_str v = Inl e \<Longrightarrow> e = TypeError \<or> e = ValueError \<or> e = OverflowError"
  by (cases v) (auto simp add: stock_column_def int_value_def split: option.splits if_splits)

section \<open>update_status\<close>

text \<open>
  Claim C1. For every order that the lookup returns and every requested status value,
  \<^verbatim>\<open>update_status\<close> answers with the success response if and only if the requested value
  is a non-empty str that is a value of the configured status enumeration; and when it
  answers so, the database afterwards holds the order under its key with the status field
  set to exactly the requested value, every other field and every other row as before.
\<close>

theorem update_status_succeeds_iff_valid:
  assumes "get_object (OrderViewSet_get_queryset request db) pk = Inr ord"
      and "dict_get (data request) ''status'' PNone = new_status"
  shows "(fst (update_status STATUS_CHOICES request pk db)
            = Inr (Response [(''status'', ''order status updated'')] HTTP_200_OK)
          \<longleftrightarrow> (\<exists>s. new_status = PStr s \<and> s \<noteq> [] \<and> s \<in> fst ` set STATUS_CHOICES))
       \<and> (fst (update_status STATUS_CHOICES request pk db)
            = Inr (Response [(''status'', ''order status updated'')] HTTP_200_OK)
          \<longrightarrow> snd (update_status STATUS_CHOICES request pk db)
                = db\<lparr>orders := (orders db)(pk \<mapsto> ord\<lparr>status := new_status\<rparr>)\<rparr>)"
proof (cases "(if truthy new_status then in_dict new_status STATUS_CHOICES else Inr False)")
  case (Inl e)
  moreover from Inl
  have "\<not> (\<exists>s. new_status = PStr s \<and> s \<noteq> [] \<and> s \<in> fst ` set STATUS_CHOICES)"
    using accepted_iff [of new_status STATUS_CHOICES] by simp
  ultimately show ?thesis
    using assms by (simp add: update_status_found)
next
  case (Inr b)
  show ?thesis
  proof (cases b)
    case True
    with Inr have "\<exists>s. new_status = PStr s \<and> s \<noteq> [] \<and> s \<in> fst ` set STATUS_CHOICES"
      using accepted_iff [of new_status STATUS_CHOICES] by simp
    with Inr True show ?thesis
      using assms by (simp add: update_status_found)
  next
    case False
    with Inr
    have "\<not> (\<exists>s. new_status = PStr s \<and> s \<noteq> [] \<and> s \<in> fst ` set STATUS_CHOICES)"
      using accepted_iff [of new_status STATUS_CHOICES] by simp
    with Inr False show ?thesis
      using assms Response_ok_neq_error
      by (simp add: update_status_found
          eq_commute [of "Response [(''error'', ''invalid status'')] HTTP_400_BAD_REQUEST"])
  qed
qed

theorem update_status_succeeds_iff_valid_witness:
  "get_object (OrderViewSet_get_queryset (post alice [''status'' \<mapsto> PStr ''shipped'']) example_db) 7
     = Inr \<lparr>user_id = 3, status = PStr ''delivered''\<rparr>
   \<and> fst (update_status STATUS_CHOICES_spec (post alice [''status'' \<mapsto> PStr ''shipped'']) 7 example_db)
     = Inr (Response [(''status'', ''order status updated'')] HTTP_200_OK)
   \<and> snd (update_status STATUS_CHOICES_spec (post alice [''status'' \<mapsto> PStr ''shipped'']) 7 example_db)
     = example_db\<lparr>orders := (orders example_db)(7 \<mapsto> \<lparr>user_id = 3, status = PStr ''shipped''\<rparr>)\<rparr>"
proof -
  have found: "get_object (OrderViewSet_get_queryset (post alice [''status'' \<mapsto> PStr ''shipped'']) example_db) 7
     = Inr \<lparr>user_id = 3, status = PStr ''delivered''\<rparr>"
    by (rule alice_reaches_7)
  have requested: "dict_get (data (post alice [''status'' \<mapsto> PStr ''shipped''])) ''status'' PNone
     = PStr ''shipped''"
    by (simp add: dict_get_def post_def)
  have valid: "\<exists>s. PStr ''shipped'' = PStr s \<and> s \<noteq> [] \<and> s \<in> fst ` set STATUS_CHOICES_spec"
    by (simp add: STATUS_CHOICES_spec_def)
  from update_status_succeeds_iff_valid [OF found requested, of STATUS_CHOICES_spec] valid found
  show ?thesis by simp
qed

text \<open>
  Claim C5. No transition graph: for every order that the lookup returns, whatever its
  current status, and every value \<open>s\<close> of a status enumeration that has no empty value,
  \<^verbatim>\<open>update_status\<close> with the requested status \<open>s\<close> answers with the success response
  and stores the order with the status \<open>s\<close>.
\<close>

theorem update_status_any_transition:
  assumes "get_object (OrderViewSet_get_queryset request db) pk = Inr ord"
      and "[] \<notin> fst ` set STATUS_CHOICES"
      and "s \<in> fst ` set STATUS_CHOICES"
      and "data request ''status'' = Some (PStr s)"
  shows "update_status STATUS_CHOICES request pk db =
           (Inr (Response [(''status'', ''order status updated'')] HTTP_200_OK),
            db\<lparr>orders := (orders db)(pk \<mapsto> ord\<lparr>status := PStr s\<rparr>)\<rparr>)
         \<and> map_option status (orders (snd (update_status STATUS_CHOICES request pk db)) pk)
             = Some (PStr s)"
proof -
  from assms(2,3) have "s \<noteq> []" by blast
  with assms(3)
  have "(if truthy (PStr s) then in_dict (PStr s) STATUS_CHOICES else Inr False) = Inr True"
    using accepted_iff [of "PStr s" STATUS_CHOICES] by simp
  moreover have "dict_get (data request) ''status'' PNone = PStr s"
    using assms(4) by (simp add: dict_get_def)
  ultimately show ?thesis
    using assms(1) by (simp add: update_status_found)
qed

text \<open>The example of the specification: a delivered order goes back to pending.\<close>

theorem update_status_any_transition_witness:
  "status \<lparr>user_id = 3, status = PStr ''delivered''\<rparr> = PStr ''delivered''
   \<and> update_status STATUS_CHOICES_spec (post alice [''status'' \<mapsto> PStr ''pending'']) 7 example_db =
       (Inr (Response [(''status'', ''order status updated'')] HTTP_200_OK),
        example_db\<lparr>orders := (orders example_db)(7 \<mapsto> \<lparr>user_id = 3, status = PStr ''pending''\<rparr>)\<rparr>)"
proof -
  have found: "get_object (OrderViewSet_get_queryset (post alice [''status'' \<mapsto> PStr ''pending'']) example_db) 7
     = Inr \<lparr>user_id = 3, status = PStr ''delivered''\<rparr>"
    by (rule alice_reaches_7)
  have no_empty: "[] \<notin> fst ` set STATUS_CHOICES_spec"
    by (simp add: STATUS_CHOICES_spec_def)
  have member: "''pending'' \<in> fst ` set STATUS_CHOICES_spec"
    by (simp add: STATUS_CHOICES_spec_def)
  have requested: "data (post alice [''status'' \<mapsto> PStr ''pending'']) ''status'' = Some (PStr ''pending'')"
    by (simp add: post_def)
  from update_status_any_transition [OF found no_empty member requested]
  show ?thesis by simp
qed

text \<open>
  A requested value that is not a non-empty str of the enumeration is answered with the
  error response, and the database stays as it is, provided the value is not a non-empty
  list or dict.
\<close>

lemma update_status_invalid_hashable:
  assumes "get_object (OrderViewSet_get_queryset request db) pk = Inr ord"
      and "dict_get (data request) ''status'' PNone = new_status"
      and "\<not> (\<exists>s. new_status = PStr s \<and> s \<noteq> [] \<and> s \<in> fst ` set STATUS_CHOICES)"
      and "truthy new_status \<longrightarrow> hashable new_status"
  shows "update_status STATUS_CHOICES request pk db =
           (Inr (Response [(''error'', ''invalid status'')] HTTP_400_BAD_REQUEST), db)"
proof -
  let ?g = "if truthy new_status then in_dict new_status STATUS_CHOICES else Inr False"
  have "?g \<noteq> Inr True" using assms(3) accepted_iff [of new_status STATUS_CHOICES] by simp
  moreover have "\<And>e. ?g \<noteq> Inl e" using assms(4) raises_iff [of new_status STATUS_CHOICES] by auto
  ultimately have "?g = Inr False" by (cases ?g) auto
  then show ?thesis using assms(1,2) by (simp add: update_status_found)
qed

text \<open>When \<^verbatim>\<open>update_status\<close> raises \<^verbatim>\<open>TypeError\<close>.\<close>

lemma update_status_raises_iff:
  "fst (update_status STATUS_CHOICES request pk db) = Inl TypeError \<longleftrightarrow>
     (\<exists>ord. get_object (OrderViewSet_get_queryset request db) pk = Inr ord)
     \<and> truthy (dict_get (data request) ''status'' PNone)
     \<and> \<not> hashable (dict_get (data request) ''status'' PNone)"
proof (cases "get_object (OrderViewSet_get_queryset request db) pk")
  case (Inl e)
  then have "e = Http404" by (cases e) (auto simp: get_object_def split: option.splits)
  with Inl show ?thesis by (simp add: update_status_def)
next
  case (Inr ord)
  let ?v = "dict_get (data request) ''status'' PNone"
  let ?g = "if truthy ?v then in_dict ?v STATUS_CHOICES else Inr False"
  show ?thesis
  proof (cases ?g)
    case (Inl e)
    with raises_iff [of ?v STATUS_CHOICES e] Inr show ?thesis
      by (simp add: update_status_found)
  next
    case (Inr b)
    then have "\<not> (truthy ?v \<and> \<not> hashable ?v)"
      using raises_iff [of ?v STATUS_CHOICES TypeError] by auto
    with Inr \<open>get_object (OrderViewSet_get_queryset request db) pk = Inr ord\<close> show ?thesis
      by (cases b) (auto simp add: update_status_found)
  qed
qed

text \<open>
  Claim C7. A requested status that is absent from the configured status set should be
  answered with the error response "invalid status". For the JSON body
  \<^verbatim>\<open>{"status": ["pending"]}\<close> the requested value is a non-empty list: it is true, so
  the membership test in \<^verbatim>\<open>dict(Order.STATUS_CHOICES)\<close> runs and raises \<^verbatim>\<open>TypeError\<close>,
  and the view returns no response. The database is left as it was.
\<close>

theorem update_status_list_value_raises:
  "update_status STATUS_CHOICES_spec (post alice [''status'' \<mapsto> PList [PStr ''pending'']]) 7 example_db
     = (Inl TypeError, example_db)"
  unfolding update_status_found [OF alice_reaches_7]
  by (simp add: dict_get_def post_def in_dict_def)

text \<open>
  Claim C9. Every operation should return a structured result for a valid, an invalid
  and an empty status. For the JSON body \<^verbatim>\<open>{"status": {"to": "shipped"}}\<close>, an invalid
  status, \<^verbatim>\<open>update_status\<close> returns no response: \<^verbatim>\<open>TypeError\<close> leaves the view.
\<close>

theorem update_status_dict_value_raises:
  "fst (update_status STATUS_CHOICES_spec
          (post clerk [''status'' \<mapsto> PDict [(''to'', PStr ''shipped'')]]) 7 example_db)
     = Inl TypeError"
  unfolding update_status_found [OF clerk_reaches_7]
  by (simp add: dict_get_def post_def in_dict_def)

text \<open>
  Claim C8. The outcome of \<^verbatim>\<open>update_status\<close>, response and database, is the same for
  two requests with the same body on the same order, whoever the acting users are: once the
  lookup has returned the order, the user is not consulted again.
\<close>

theorem update_status_same_for_all_users:
  assumes "data request1 = data request2"
      and "get_object (OrderViewSet_get_queryset request1 db) pk = Inr ord"
      and "get_object (OrderViewSet_get_queryset request2 db) pk = Inr ord"
  shows "update_status STATUS_CHOICES request1 pk db = update_status STATUS_CHOICES request2 pk db"
  using assms by (simp add: update_status_found)

text \<open>The owner of order 7 and a member of staff.\<close>

theorem update_status_same_for_all_users_witness:
  "user (post alice [''status'' \<mapsto> PStr ''shipped'']) \<noteq> user (post clerk [''status'' \<mapsto> PStr ''shipped''])
   \<and> update_status STATUS_CHOICES_spec (post alice [''status'' \<mapsto> PStr ''shipped'']) 7 example_db
     = update_status STATUS_CHOICES_spec (post clerk [''status'' \<mapsto> PStr ''shipped'']) 7 example_db
   \<and> fst (update_status STATUS_CHOICES_spec (post clerk [''status'' \<mapsto> PStr ''shipped'']) 7 example_db)
     = Inr (Response [(''status'', ''order status updated'')] HTTP_200_OK)"
proof -
  have same_body: "data (post alice [''status'' \<mapsto> PStr ''shipped''])
      = data (post clerk [''status'' \<mapsto> PStr ''shipped''])"
    by (simp add: post_def)
  have differ: "user (post alice [''status'' \<mapsto> PStr ''shipped''])
      \<noteq> user (post clerk [''status'' \<mapsto> PStr ''shipped''])"
    by (simp add: post_def alice_def clerk_def)
  have ok: "fst (update_status STATUS_CHOICES_spec (post clerk [''status'' \<mapsto> PStr ''shipped'']) 7 example_db)
     = Inr (Response [(''status'', ''order status updated'')] HTTP_200_OK)"
    unfolding update_status_found [OF clerk_reaches_7]
    by (simp add: dict_get_def post_def in_dict_def STATUS_CHOICES_spec_def)
  from update_status_same_for_all_users [OF same_body alice_reaches_7 clerk_reaches_7, of STATUS_CHOICES_spec]
    differ ok
  show ?thesis by simp
qed

text \<open>
  Which orders the lookup returns does depend on the user: \<^verbatim>\<open>get_object\<close> searches
  \<^verbatim>\<open>get_queryset\<close>, so an order of somebody else is not found by a user who is not staff.
\<close>

lemma update_status_not_visible:
  assumes "\<not> is_staff (user request)"
      and "orders db pk = Some ord"
      and "user_id ord \<noteq> user_pk (user request)"
  shows "update_status STATUS_CHOICES request pk db = (Inl Http404, db)"
  using assms
  by (simp add: update_status_def get_object_def OrderViewSet_get_queryset_def objects_filter_def)

lemma bob_does_not_reach_7:
  "update_status STATUS_CHOICES_spec (post bob [''status'' \<mapsto> PStr ''shipped'']) 7 example_db
     = (Inl Http404, example_db)"
  by (rule update_status_not_visible [where ord = "\<lparr>user_id = 3, status = PStr ''delivered''\<rparr>"])
     (simp_all add: post_def bob_def example_db_def)

section \<open>update_stock\<close>

text \<open>
  Claim C2, as it is stated, for every present value: it fails for a value that the
  integer column does not take. The body \<^verbatim>\<open>{"stock": [1]}\<close> carries a present value
  and the product is found, yet saving it raises \<^verbatim>\<open>TypeError\<close>: no success response is
  returned and the stock is not set.
\<close>

theorem update_stock_list_value_raises:
  "data (post alice [''stock'' \<mapsto> PList [PInt 1]]) ''stock'' = Some (PList [PInt 1])
   \<and> PList [PInt 1] \<noteq> PNone
   \<and> get_object (ProductViewSet_get_queryset (post alice [''stock'' \<mapsto> PList [PInt 1]]) example_db) 1
       = Inr \<lparr>category = 2, stock = 5\<rparr>
   \<and> update_stock example_int_of_str (post alice [''stock'' \<mapsto> PList [PInt 1]]) 1 example_db
       = (Inl TypeError, example_db)"
proof -
  have "update_stock example_int_of_str (post alice [''stock'' \<mapsto> PList [PInt 1]]) 1 example_db
       = (Inl TypeError, example_db)"
    unfolding update_stock_found [OF product_1_found]
    by (simp add: dict_get_def post_def stock_column_def int_value_def)
  moreover have "data (post alice [''stock'' \<mapsto> PList [PInt 1]]) ''stock'' = Some (PList [PInt 1])"
    by (simp add: post_def)
  ultimately show ?thesis
    using product_1_found [of alice "[''stock'' \<mapsto> PList [PInt 1]]"] by simp
qed

text \<open>
  More values that the column does not store as they are: a text that is no number, a
  number out of the range of the database, a float with a fraction, a text that is a
  number.
\<close>

lemma update_stock_text_raises:
  "update_stock example_int_of_str (post alice [''stock'' \<mapsto> PStr ''abc'']) 1 example_db
     = (Inl ValueError, example_db)"
  unfolding update_stock_found [OF product_1_found]
  by (simp add: dict_get_def post_def stock_column_def int_value_def example_int_of_str_def)

lemma update_stock_out_of_range_raises:
  "update_stock example_int_of_str (post alice [''stock'' \<mapsto> PInt (2 ^ 63)]) 1 example_db
     = (Inl OverflowError, example_db)"
  unfolding update_stock_found [OF product_1_found]
  by (simp add: dict_get_def post_def stock_column_def int_value_def)

lemma update_stock_float_truncated:
  "update_stock example_int_of_str (post alice [''stock'' \<mapsto> PFloat (27 / 10)]) 1 example_db
     = (Inr (Response [(''status'', ''stock updated'')] HTTP_200_OK),
        example_db\<lparr>products := (products example_db)(1 \<mapsto> \<lparr>category = 2, stock = 2\<rparr>)\<rparr>)"
proof -
  have "\<lfloor>27 / 10 :: rat\<rfloor> = 2" by (rule floor_unique) simp_all
  then show ?thesis
    unfolding update_stock_found [OF product_1_found]
    by (simp add: dict_get_def post_def stock_column_def int_value_def)
qed

lemma update_stock_text_converted:
  "update_stock example_int_of_str (post alice [''stock'' \<mapsto> PStr ''12'']) 1 example_db
     = (Inr (Response [(''status'', ''stock updated'')] HTTP_200_OK),
        example_db\<lparr>products := (products example_db)(1 \<mapsto> \<lparr>category = 2, stock = 12\<rparr>)\<rparr>)"
  unfolding update_stock_found [OF product_1_found]
  by (simp add: dict_get_def post_def stock_column_def int_value_def example_int_of_str_def)

text \<open>
  Claim C2, amended. For every product that the lookup returns and every requested stock
  value that is an integer \<open>i\<close> within the range of the database's integers (64 bits with
  a sign), negative or not, \<^verbatim>\<open>update_stock\<close> answers with the success response and stores
  the product under its key with the stock set to exactly \<open>i\<close>: no clamping and no
  validation. Nothing else in the database changes.
\<close>

theorem update_stock_integer_value:
  assumes "get_object (ProductViewSet_get_queryset request db) pk = Inr prd"
      and "data request ''stock'' = Some (PInt i)"
      and "- (2 ^ 63) \<le> i" and "i < 2 ^ 63"
  shows "update_stock int_of_str request pk db =
           (Inr (Response [(''status'', ''stock updated'')] HTTP_200_OK),
            db\<lparr>products := (products db)(pk \<mapsto> prd\<lparr>stock := i\<rparr>)\<rparr>)
         \<and> map_option stock (products (snd (update_stock int_of_str request pk db)) pk) = Some i"
proof -
  have "dict_get (data request) ''stock'' PNone = PInt i"
    using assms(2) by (simp add: dict_get_def)
  moreover have "stock_column int_of_str (PInt i) = Inr i"
    using assms(3,4) by (rule stock_column_PInt)
  ultimately show ?thesis
    using assms(1) by (simp add: update_stock_found)
qed

theorem update_stock_integer_value_witness:
  "update_stock example_int_of_str (post alice [''stock'' \<mapsto> PInt (- 3)]) 1 example_db =
     (Inr (Response [(''status'', ''stock updated'')] HTTP_200_OK),
      example_db\<lparr>products := (products example_db)(1 \<mapsto> \<lparr>category = 2, stock = - 3\<rparr>)\<rparr>)
   \<and> map_option stock
        (products (snd (update_stock example_int_of_str (post alice [''stock'' \<mapsto> PInt (- 3)]) 1 example_db)) 1)
     = Some (- 3)"
proof -
  have present: "data (post alice [''stock'' \<mapsto> PInt (- 3)]) ''stock'' = Some (PInt (- 3))"
    by (simp add: post_def)
  have lower: "- (2 ^ 63) \<le> (- 3 :: int)"
    by simp
  have upper: "(- 3 :: int) < 2 ^ 63"
    by simp
  from update_stock_integer_value [OF product_1_found present lower upper, of example_int_of_str]
  show ?thesis by simp
qed

text \<open>
  Claim C6. For every product that the lookup returns, \<^verbatim>\<open>update_stock\<close> with an absent
  stock value (no \<^verbatim>\<open>stock\<close> entry in the body, or the entry \<^verbatim>\<open>null\<close>) answers with the
  error response "stock value not provided" and status 400, and the database is the one
  before the call: nothing is saved and the product is as it was.
\<close>

theorem update_stock_absent_value:
  assumes "get_object (ProductViewSet_get_queryset request db) pk = Inr prd"
      and "data request ''stock'' = None \<or> data request ''stock'' = Some PNone"
  shows "update_stock int_of_str request pk db =
           (Inr (Response [(''error'', ''stock value not provided'')] HTTP_400_BAD_REQUEST), db)
         \<and> get_object (ProductViewSet_get_queryset request
               (snd (update_stock int_of_str request pk db))) pk
             = Inr prd"
proof -
  have "dict_get (data request) ''stock'' PNone = PNone"
    using assms(2) by (auto simp add: dict_get_def)
  with assms(1) show ?thesis
    by (simp add: update_stock_found)
qed

theorem update_stock_absent_value_witness:
  "update_stock example_int_of_str (post alice Map.empty) 1 example_db =
     (Inr (Response [(''error'', ''stock value not provided'')] HTTP_400_BAD_REQUEST), example_db)
   \<and> get_object (ProductViewSet_get_queryset (post alice Map.empty)
        (snd (update_stock example_int_of_str (post alice Map.empty) 1 example_db))) 1
     = Inr \<lparr>category = 2, stock = 5\<rparr>"
proof -
  have absent: "data (post alice Map.empty) ''stock'' = None
      \<or> data (post alice Map.empty) ''stock'' = Some PNone"
    by (simp add: post_def)
  from update_stock_absent_value [OF product_1_found absent]
  show ?thesis .
qed

text \<open>
  Claim C10. Presence of the stock value is tested with \<^verbatim>\<open>is not None\<close>, not by truth
  value: the requested value 0, which is false, is accepted and the stock is set to exactly
  0. The guard of \<^verbatim>\<open>update_status\<close> tests the truth value first: the empty str is
  rejected with "invalid status" for every status enumeration, even one that has the empty
  str as a value.
\<close>

theorem update_stock_zero_update_status_empty:
  "\<not> truthy (PInt 0)
   \<and> (get_object (ProductViewSet_get_queryset request db) pk = Inr prd
        \<and> data request ''stock'' = Some (PInt 0)
      \<longrightarrow> update_stock int_of_str request pk db =
           (Inr (Response [(''status'', ''stock updated'')] HTTP_200_OK),
            db\<lparr>products := (products db)(pk \<mapsto> prd\<lparr>stock := 0\<rparr>)\<rparr>))
   \<and> (get_object (OrderViewSet_get_queryset request' db') pk' = Inr ord
        \<and> data request' ''status'' = Some (PStr [])
      \<longrightarrow> update_status STATUS_CHOICES request' pk' db' =
           (Inr (Response [(''error'', ''invalid status'')] HTTP_400_BAD_REQUEST), db'))"
  by (simp add: update_stock_found update_status_found dict_get_def stock_column_PInt)

theorem update_stock_zero_update_status_empty_witness:
  "update_stock example_int_of_str (post alice [''stock'' \<mapsto> PInt 0]) 1 example_db =
     (Inr (Response [(''status'', ''stock updated'')] HTTP_200_OK),
      example_db\<lparr>products := (products example_db)(1 \<mapsto> \<lparr>category = 2, stock = 0\<rparr>)\<rparr>)
   \<and> [] \<in> fst ` set (([], ''Unknown'') # STATUS_CHOICES_spec)
   \<and> update_status (([], ''Unknown'') # STATUS_CHOICES_spec) (post alice [''status'' \<mapsto> PStr []]) 7 example_db =
     (Inr (Response [(''error'', ''invalid status'')] HTTP_400_BAD_REQUEST), example_db)"
proof -
  have zero: "data (post alice [''stock'' \<mapsto> PInt 0]) ''stock'' = Some (PInt 0)"
    by (simp add: post_def)
  have empty: "data (post alice [''status'' \<mapsto> PStr []]) ''status'' = Some (PStr [])"
    by (simp add: post_def)
  have found: "get_object (OrderViewSet_get_queryset (post alice [''status'' \<mapsto> PStr []]) example_db) 7
     = Inr \<lparr>user_id = 3, status = PStr ''delivered''\<rparr>"
    by (rule alice_reaches_7)
  have prod_found: "get_object (ProductViewSet_get_queryset (post alice [''stock'' \<mapsto> PInt 0]) example_db) 1
     = Inr \<lparr>category = 2, stock = 5\<rparr>"
    by (rule product_1_found)
  from update_stock_zero_update_status_empty
    [of "post alice [''stock'' \<mapsto> PInt 0]" example_db 1 "\<lparr>category = 2, stock = 5\<rparr>"
        example_int_of_str
        "post alice [''status'' \<mapsto> PStr []]" example_db 7
        "\<lparr>user_id = 3, status = PStr ''delivered''\<rparr>" "([], ''Unknown'') # STATUS_CHOICES_spec"]
    zero empty found prod_found
  show ?thesis by simp
qed

section \<open>The querysets\<close>

text \<open>
  Claim C3. For every acting user and every database, \<^verbatim>\<open>OrderViewSet.get_queryset\<close> is
  the whole table of orders when the user is staff; when the user is not staff, an order
  is in the result if and only if it is in the table and its owner is the user.
\<close>

theorem OrderViewSet_get_queryset_visible:
  "(is_staff (user request) \<longrightarrow> OrderViewSet_get_queryset request db = orders db)
   \<and> (\<not> is_staff (user request) \<longrightarrow>
        (\<forall>k ord. OrderViewSet_get_queryset request db k = Some ord
           \<longleftrightarrow> orders db k = Some ord \<and> user_id ord = user_pk (user request)))"
  by (auto simp add: OrderViewSet_get_queryset_def objects_filter_def split: option.splits)

theorem OrderViewSet_get_queryset_visible_witness:
  "OrderViewSet_get_queryset (post clerk Map.empty) example_db = orders example_db
   \<and> OrderViewSet_get_queryset (post alice Map.empty) example_db 7
       = Some \<lparr>user_id = 3, status = PStr ''delivered''\<rparr>
   \<and> OrderViewSet_get_queryset (post alice Map.empty) example_db 8 = None"
proof -
  have staff: "is_staff (user (post clerk Map.empty))"
    by (simp add: post_def clerk_def)
  have not_staff: "\<not> is_staff (user (post alice Map.empty))"
    by (simp add: post_def alice_def)
  have own: "orders example_db 7 = Some \<lparr>user_id = 3, status = PStr ''delivered''\<rparr>
      \<and> user_id \<lparr>user_id = 3, status = PStr ''delivered''\<rparr> = user_pk (user (post alice Map.empty))"
    by (simp add: example_db_def post_def alice_def)
  have other: "\<And>ord. \<not> (orders example_db 8 = Some ord \<and> user_id ord = user_pk (user (post alice Map.empty)))"
    by (auto simp add: example_db_def post_def alice_def)
  from OrderViewSet_get_queryset_visible [of "post clerk Map.empty" example_db] staff
  have all: "OrderViewSet_get_queryset (post clerk Map.empty) example_db = orders example_db"
    by simp
  from OrderViewSet_get_queryset_visible [of "post alice Map.empty" example_db] not_staff
  have mine: "\<And>k ord. OrderViewSet_get_queryset (post alice Map.empty) example_db k = Some ord
           \<longleftrightarrow> orders example_db k = Some ord \<and> user_id ord = user_pk (user (post alice Map.empty))"
    by simp
  have "OrderViewSet_get_queryset (post alice Map.empty) example_db 7
       = Some \<lparr>user_id = 3, status = PStr ''delivered''\<rparr>"
    using mine own by simp
  moreover have "OrderViewSet_get_queryset (post alice Map.empty) example_db 8 = None"
    using mine [of 8] other by (cases "OrderViewSet_get_queryset (post alice Map.empty) example_db 8") auto
  ultimately show ?thesis using all by simp
qed

text \<open>
  Claim C4. \<^verbatim>\<open>OrderItemViewSet.get_queryset\<close> with no \<^verbatim>\<open>order_pk\<close> has no row,
  whatever the table of order items holds; with \<^verbatim>\<open>order_pk\<close> supplied, an item is in the
  result if and only if it is in the table and its parent order is the one supplied.
\<close>

theorem OrderItemViewSet_get_queryset_scoped:
  "(kwargs ''order_pk'' = None \<longrightarrow> OrderItemViewSet_get_queryset kwargs db = Map.empty)
   \<and> (kwargs ''order_pk'' = Some oid \<longrightarrow>
        (\<forall>k item. OrderItemViewSet_get_queryset kwargs db k = Some item
           \<longleftrightarrow> order_items db k = Some item \<and> order_id item = oid))"
  by (auto simp add: OrderItemViewSet_get_queryset_def objects_filter_def objects_none_def
      split: option.splits)

theorem OrderItemViewSet_get_queryset_scoped_witness:
  "order_items example_db 1 = Some \<lparr>order_id = 7, product_id = 1\<rparr>
   \<and> OrderItemViewSet_get_queryset Map.empty example_db = Map.empty
   \<and> OrderItemViewSet_get_queryset [''order_pk'' \<mapsto> 7] example_db 1
       = Some \<lparr>order_id = 7, product_id = 1\<rparr>
   \<and> OrderItemViewSet_get_queryset [''order_pk'' \<mapsto> 7] example_db 2 = None"
proof -
  have exists: "order_items example_db 1 = Some \<lparr>order_id = 7, product_id = 1\<rparr>"
    by (simp add: example_db_def)
  have other: "\<And>item. \<not> (order_items example_db 2 = Some item \<and> order_id item = 7)"
    by (auto simp add: example_db_def)
  from OrderItemViewSet_get_queryset_scoped [of Map.empty example_db]
  have unscoped: "OrderItemViewSet_get_queryset Map.empty example_db = Map.empty"
    by simp
  from OrderItemViewSet_get_queryset_scoped [of "[''order_pk'' \<mapsto> 7]" example_db 7]
  have scoped: "\<And>k item. OrderItemViewSet_get_queryset [''order_pk'' \<mapsto> 7] example_db k = Some item
           \<longleftrightarrow> order_items example_db k = Some item \<and> order_id item = 7"
    by simp
  have "OrderItemViewSet_get_queryset [''order_pk'' \<mapsto> 7] example_db 1
       = Some \<lparr>order_id = 7, product_id = 1\<rparr>"
    using scoped exists by simp
  moreover have "OrderItemViewSet_get_queryset [''order_pk'' \<mapsto> 7] example_db 2 = None"
    using scoped [of 2] other
    by (cases "OrderItemViewSet_get_queryset [''order_pk'' \<mapsto> 7] example_db 2") auto
  ultimately show ?thesis using exists unscoped by simp
qed

section \<open>What the two actions can return\<close>

text \<open>
  \<^verbatim>\<open>update_stock\<close> returns one of its two responses unless the lookup raises
  \<^verbatim>\<open>Http404\<close> or the save raises; \<^verbatim>\<open>update_status\<close> returns one of its two responses
  unless the lookup raises \<^verbatim>\<open>Http404\<close> or the guard raises \<^verbatim>\<open>TypeError\<close>.
\<close>

lemma get_object_cases:
  "get_object queryset pk = Inl Http404 \<or> (\<exists>obj. get_object queryset pk = Inr obj)"
  by (simp add: get_object_def split: option.splits)

lemma update_stock_outcomes:
  "fst (update_stock int_of_str request pk db) = Inl Http404
   \<or> fst (update_stock int_of_str request pk db) = Inl TypeError
   \<or> fst (update_stock int_of_str request pk db) = Inl ValueError
   \<or> fst (update_stock int_of_str request pk db) = Inl OverflowError
   \<or> fst (update_stock int_of_str request pk db)
       = Inr (Response [(''status'', ''stock updated'')] HTTP_200_OK)
   \<or> fst (update_stock int_of_str request pk db)
       = Inr (Response [(''error'', ''stock value not provided'')] HTTP_400_BAD_REQUEST)"
proof (cases "get_object (ProductViewSet_get_queryset request db) pk")
  case (Inl e)
  then show ?thesis
    using get_object_cases [of "ProductViewSet_get_queryset request db" pk]
    by (simp add: update_stock_def)
next
  case (Inr prd)
  let ?v = "dict_get (data request) ''stock'' PNone"
  show ?thesis
  proof (cases "stock_column int_of_str ?v")
    case (Inl e)
    with stock_column_raises [of int_of_str ?v e] Inr show ?thesis
      by (auto simp add: update_stock_found Let_def)
  next
    case (Inr i)
    with \<open>get_object (ProductViewSet_get_queryset request db) pk = Inr prd\<close> show ?thesis
      by (simp add: update_stock_found Let_def)
  qed
qed

lemma update_status_outcomes:
  "fst (update_status STATUS_CHOICES request pk db) = Inl Http404
   \<or> fst (update_status STATUS_CHOICES request pk db) = Inl TypeError
   \<or> fst (update_status STATUS_CHOICES request pk db)
       = Inr (Response [(''status'', ''order status updated'')] HTTP_200_OK)
   \<or> fst (update_status STATUS_CHOICES request pk db)
       = Inr (Response [(''error'', ''invalid status'')] HTTP_400_BAD_REQUEST)"
proof (cases "get_object (OrderViewSet_get_queryset request db) pk")
  case (Inl e)
  then show ?thesis
    using get_object_cases [of "OrderViewSet_get_queryset request db" pk]
    by (simp add: update_status_def)
next
  case (Inr ord)
  let ?v = "dict_get (data request) ''status'' PNone"
  show ?thesis
  proof (cases "if truthy ?v then in_dict ?v STATUS_CHOICES else Inr False")
    case (Inl e)
    then have "e = TypeError" using raises_iff [of ?v STATUS_CHOICES e] by simp
    with Inl Inr show ?thesis by (simp add: update_status_found)
  next
    case (Inr b)
    with \<open>get_object (OrderViewSet_get_queryset request db) pk = Inr ord\<close> show ?thesis
      by (cases b) (simp_all add: update_status_found)
  qed
qed

end
